theory Spec2Isabelle
  imports Main
begin

section \<open>superset/tags/commands/create.py: the two tag-creation commands\<close>

text \<open>
  The module defines two commands, \<^verbatim>\<open>CreateCustomTagCommand\<close> and
  \<^verbatim>\<open>CreateCustomTagWithRelationshipsCommand\<close>. Each has a \<^verbatim>\<open>validate\<close> method
  that collects exceptions in a list and raises one \<^verbatim>\<open>TagInvalidError\<close> carrying them,
  and a \<^verbatim>\<open>run\<close> method that validates and then calls \<^verbatim>\<open>TagDAO\<close> inside
  \<^verbatim>\<open>try ... except DAOCreateFailedError\<close>.

  Exceptions are values of the type \<open>exn\<close>; a method returns \<open>exn + 'a\<close> with \<open>Inl\<close> for
  a raise. The database session is an explicit state that every \<^verbatim>\<open>TagDAO\<close> operation
  takes and returns, also when it raises. \<^verbatim>\<open>run\<close> returns, with its outcome and the
  final state, the list of persistence operations it issued, in order.
\<close>

subsection \<open>Exceptions\<close>

text \<open>
  \<^verbatim>\<open>TagCreateFailedError(msg)\<close> carries an optional message and, after
  \<^verbatim>\<open>raise ... from ex\<close>, its cause. \<^verbatim>\<open>TagInvalidError(msg, exceptions=...)\<close> carries
  an optional message and the list of collected exceptions. \<^verbatim>\<open>DAOCreateFailedError\<close> is
  the one exception kind that \<^verbatim>\<open>run\<close> catches; \<open>OtherError\<close> stands for every other
  kind an operation of the persistence layer may raise.
\<close>

datatype exn =
    DAOCreateFailedError string
  | OtherError string
  | TagCreateFailedError "string option" "exn option"
  | TagInvalidError "string option" "exn list"

text \<open>
  Modelled from the spec: the enumeration \<^verbatim>\<open>TagTypes\<close> of \<^verbatim>\<open>superset.tags.models\<close>,
  which the module imports. The spec says that it distinguishes the kinds of tag and
  that this module only produces \<^verbatim>\<open>custom\<close> tags; every other kind is an
  \<open>other_kind\<close>.
\<close>

datatype TagTypes = custom | other_kind string

subsection \<open>What the module imports\<close>

text \<open>
  \<^verbatim>\<open>to_object_type\<close> (from \<^verbatim>\<open>superset.tags.commands.utils\<close>) maps a token to a member
  of \<^verbatim>\<open>ObjectTypes\<close> or to \<^verbatim>\<open>None\<close>; it is a parameter here, together with the text
  that an f-string produces for a token. A member of the enumeration is truthy, so
  \<^verbatim>\<open>not object_type\<close> and \<^verbatim>\<open>object_type is None\<close> are both the case \<open>None\<close>.
\<close>

record ('tok, 'ot) utils =
  to_object_type :: "'tok \<Rightarrow> 'ot option"
  format_token :: "'tok \<Rightarrow> string"

text \<open>
  \<^verbatim>\<open>TagDAO\<close> and \<^verbatim>\<open>db.session\<close> are parameters too: each operation takes the state \<open>'s\<close>
  of the persistence layer and returns its result or the exception it raises, with the
  state it leaves. \<open>set_description\<close> is the assignment \<^verbatim>\<open>tag.description = ...\<close> on the
  object that \<^verbatim>\<open>get_by_name\<close> returned.
\<close>

record ('s, 'tok, 'ot, 'tag) TagDAO =
  create_custom_tagged_objects :: "'ot \<Rightarrow> int \<Rightarrow> string list \<Rightarrow> 's \<Rightarrow> (exn + unit) \<times> 's"
  get_by_name :: "string \<Rightarrow> TagTypes \<Rightarrow> 's \<Rightarrow> (exn + 'tag) \<times> 's"
  create_tag_relationship :: "('tok \<times> int) list \<Rightarrow> 'tag \<Rightarrow> bool \<Rightarrow> 's \<Rightarrow> (exn + unit) \<times> 's"
  set_description :: "'tag \<Rightarrow> string \<Rightarrow> 's \<Rightarrow> 's"
  commit :: "'s \<Rightarrow> (exn + unit) \<times> 's"

text \<open>The persistence operations a command issues, as they appear in its trace.\<close>

datatype ('tok, 'ot, 'tag) gateway_call =
    Call_create_custom_tagged_objects 'ot int "string list"
  | Call_get_by_name string TagTypes
  | Call_create_tag_relationship "('tok \<times> int) list" 'tag bool
  | Set_description 'tag string
  | Call_commit

text \<open>
  \<^verbatim>\<open>except DAOCreateFailedError as ex: raise TagCreateFailedError() from ex\<close>: the handler
  of both \<^verbatim>\<open>run\<close> methods. Every other exception passes through. The call of
  \<^verbatim>\<open>logger.exception\<close> has no effect on the result and is left out.
\<close>

fun except_DAOCreateFailedError :: "exn + 'a \<Rightarrow> exn + 'a" where
  "except_DAOCreateFailedError (Inl (DAOCreateFailedError x)) =
     Inl (TagCreateFailedError None (Some (DAOCreateFailedError x)))"
| "except_DAOCreateFailedError r = r"

subsection \<open>\<^verbatim>\<open>str.strip()\<close>\<close>

text \<open>
  A string is a list of characters with codes below 256; \<^verbatim>\<open>str.isspace\<close> holds there
  for the codes 9 to 13, 28 to 32, 133 and 160.
\<close>

definition isspace :: "char \<Rightarrow> bool" where
  "isspace c = (let n = (of_char c :: nat) in
     (9 \<le> n \<and> n \<le> 13) \<or> (28 \<le> n \<and> n \<le> 32) \<or> n = 133 \<or> n = 160)"

definition strip :: "string \<Rightarrow> string" where
  "strip s = rev (dropWhile isspace (rev (dropWhile isspace s)))"

subsection \<open>\<^verbatim>\<open>CreateCustomTagCommand\<close>\<close>

record 'tok CreateCustomTagCommand =
  cmd_object_type :: 'tok
  cmd_object_id :: int
  cmd_tags :: "string list"

text \<open>The list \<^verbatim>\<open>exceptions\<close> at the end of \<^verbatim>\<open>validate\<close>.\<close>

definition CreateCustomTagCommand_exceptions ::
  "('tok, 'ot) utils \<Rightarrow> 'tok CreateCustomTagCommand \<Rightarrow> exn list" where
  "CreateCustomTagCommand_exceptions u c =
     (if cmd_object_id c = 0 then [TagCreateFailedError None None] else []) @
     (case to_object_type u (cmd_object_type c) of
        None \<Rightarrow> [TagCreateFailedError
                  (Some (''invalid object type '' @ format_token u (cmd_object_type c))) None]
      | Some object_type \<Rightarrow> [])"

definition CreateCustomTagCommand_validate ::
  "('tok, 'ot) utils \<Rightarrow> 'tok CreateCustomTagCommand \<Rightarrow> exn + unit" where
  "CreateCustomTagCommand_validate u c =
     (let exceptions = CreateCustomTagCommand_exceptions u c in
      if exceptions \<noteq> [] then Inl (TagInvalidError None exceptions) else Inr ())"

text \<open>The body of the \<^verbatim>\<open>try\<close> block of \<^verbatim>\<open>run\<close>.\<close>

definition CreateCustomTagCommand_try ::
  "('tok, 'ot) utils \<Rightarrow> ('s, 'tok, 'ot, 'tag) TagDAO \<Rightarrow> 'tok CreateCustomTagCommand \<Rightarrow> 's
     \<Rightarrow> (exn + unit) \<times> 's \<times> ('tok, 'ot, 'tag) gateway_call list" where
  "CreateCustomTagCommand_try u dao c s =
     (case to_object_type u (cmd_object_type c) of
        None \<Rightarrow>
          (Inl (TagCreateFailedError
                 (Some (''invalid object type '' @ format_token u (cmd_object_type c))) None),
           s, [])
      | Some object_type \<Rightarrow>
          (case create_custom_tagged_objects dao object_type (cmd_object_id c) (cmd_tags c) s of
             (r, s') \<Rightarrow>
               (r, s', [Call_create_custom_tagged_objects object_type (cmd_object_id c) (cmd_tags c)])))"

definition CreateCustomTagCommand_run ::
  "('tok, 'ot) utils \<Rightarrow> ('s, 'tok, 'ot, 'tag) TagDAO \<Rightarrow> 'tok CreateCustomTagCommand \<Rightarrow> 's
     \<Rightarrow> (exn + unit) \<times> 's \<times> ('tok, 'ot, 'tag) gateway_call list" where
  "CreateCustomTagCommand_run u dao c s =
     (case CreateCustomTagCommand_validate u c of
        Inl e \<Rightarrow> (Inl e, s, [])
      | Inr _ \<Rightarrow>
          (case CreateCustomTagCommand_try u dao c s of
             (r, s', calls) \<Rightarrow> (except_DAOCreateFailedError r, s', calls)))"

subsection \<open>\<^verbatim>\<open>CreateCustomTagWithRelationshipsCommand\<close>\<close>

text \<open>
  \<^verbatim>\<open>__init__\<close> reads \<^verbatim>\<open>data["name"]\<close>, \<^verbatim>\<open>data.get("objects_to_tag")\<close> and
  \<^verbatim>\<open>data.get("description")\<close>: the last two are \<^verbatim>\<open>None\<close> when the key is absent.
\<close>

record 'tok CreateCustomTagWithRelationshipsCommand =
  rel_tag :: string
  rel_objects_to_tag :: "('tok \<times> int) list option"
  rel_description :: "string option"
  rel_bulk_create :: bool

text \<open>Truthiness of an optional list or string: \<^verbatim>\<open>None\<close> and the empty one are falsy.\<close>

fun truthy :: "'a list option \<Rightarrow> bool" where
  "truthy None = False"
| "truthy (Some xs) = (xs \<noteq> [])"

text \<open>
  The loop \<^verbatim>\<open>for obj_type, obj_id in self._objects_to_tag\<close> of \<^verbatim>\<open>validate\<close>. The message
  formats \<^verbatim>\<open>object_type\<close>, the result of \<^verbatim>\<open>to_object_type\<close>, which is \<^verbatim>\<open>None\<close> in that
  branch.
\<close>

fun object_type_exceptions :: "('tok, 'ot) utils \<Rightarrow> ('tok \<times> int) list \<Rightarrow> exn list" where
  "object_type_exceptions u [] = []"
| "object_type_exceptions u ((obj_type, obj_id) # rest) =
     (case to_object_type u obj_type of
        None \<Rightarrow> [TagInvalidError (Some (''invalid object type '' @ ''None'')) []]
      | Some object_type \<Rightarrow> []) @ object_type_exceptions u rest"

definition CreateCustomTagWithRelationshipsCommand_exceptions ::
  "('tok, 'ot) utils \<Rightarrow> 'tok CreateCustomTagWithRelationshipsCommand \<Rightarrow> exn list" where
  "CreateCustomTagWithRelationshipsCommand_exceptions u c =
     (if truthy (rel_objects_to_tag c) then
        (case rel_objects_to_tag c of
           None \<Rightarrow> []
         | Some objects \<Rightarrow>
             (if list_ex (\<lambda>(obj_type, obj_id). obj_id = 0) objects
              then [TagInvalidError None []] else []) @
             object_type_exceptions u objects)
      else [])"

definition CreateCustomTagWithRelationshipsCommand_validate ::
  "('tok, 'ot) utils \<Rightarrow> 'tok CreateCustomTagWithRelationshipsCommand \<Rightarrow> exn + unit" where
  "CreateCustomTagWithRelationshipsCommand_validate u c =
     (let exceptions = CreateCustomTagWithRelationshipsCommand_exceptions u c in
      if exceptions \<noteq> [] then Inl (TagInvalidError None exceptions) else Inr ())"

text \<open>
  The \<^verbatim>\<open>try\<close> block of \<^verbatim>\<open>run\<close>, in three steps: \<^verbatim>\<open>get_by_name\<close>, then
  \<^verbatim>\<open>create_tag_relationship\<close> when \<^verbatim>\<open>objects_to_tag\<close> is truthy, then the description
  and the commit when \<^verbatim>\<open>description\<close> is truthy. An exception ends the block where it
  is raised.
\<close>

definition step_description ::
  "('s, 'tok, 'ot, 'tag) TagDAO \<Rightarrow> 'tok CreateCustomTagWithRelationshipsCommand \<Rightarrow> 'tag \<Rightarrow> 's
     \<Rightarrow> (exn + unit) \<times> 's \<times> ('tok, 'ot, 'tag) gateway_call list" where
  "step_description dao c tag s =
     (if truthy (rel_description c) then
        (case rel_description c of
           None \<Rightarrow> (Inr (), s, [])
         | Some d \<Rightarrow>
             (case commit dao (set_description dao tag d s) of
                (r, s') \<Rightarrow> (r, s', [Set_description tag d, Call_commit])))
      else (Inr (), s, []))"

definition step_relationship ::
  "('s, 'tok, 'ot, 'tag) TagDAO \<Rightarrow> 'tok CreateCustomTagWithRelationshipsCommand \<Rightarrow> 'tag \<Rightarrow> 's
     \<Rightarrow> (exn + unit) \<times> 's \<times> ('tok, 'ot, 'tag) gateway_call list" where
  "step_relationship dao c tag s =
     (if truthy (rel_objects_to_tag c) then
        (case rel_objects_to_tag c of
           None \<Rightarrow> (Inr (), s, [])
         | Some objects \<Rightarrow>
             (case create_tag_relationship dao objects tag (rel_bulk_create c) s of
                (r, s') \<Rightarrow>
                  (r, s', [Call_create_tag_relationship objects tag (rel_bulk_create c)])))
      else (Inr (), s, []))"

definition CreateCustomTagWithRelationshipsCommand_try ::
  "('s, 'tok, 'ot, 'tag) TagDAO \<Rightarrow> 'tok CreateCustomTagWithRelationshipsCommand \<Rightarrow> 's
     \<Rightarrow> (exn + unit) \<times> 's \<times> ('tok, 'ot, 'tag) gateway_call list" where
  "CreateCustomTagWithRelationshipsCommand_try dao c s =
     (case get_by_name dao (strip (rel_tag c)) custom s of
        (Inl e, s1) \<Rightarrow> (Inl e, s1, [Call_get_by_name (strip (rel_tag c)) custom])
      | (Inr tag, s1) \<Rightarrow>
          (case step_relationship dao c tag s1 of
             (Inl e, s2, calls2) \<Rightarrow>
               (Inl e, s2, Call_get_by_name (strip (rel_tag c)) custom # calls2)
           | (Inr _, s2, calls2) \<Rightarrow>
               (case step_description dao c tag s2 of
                  (r, s3, calls3) \<Rightarrow>
                    (r, s3, Call_get_by_name (strip (rel_tag c)) custom # calls2 @ calls3))))"

definition CreateCustomTagWithRelationshipsCommand_run ::
  "('tok, 'ot) utils \<Rightarrow> ('s, 'tok, 'ot, 'tag) TagDAO
     \<Rightarrow> 'tok CreateCustomTagWithRelationshipsCommand \<Rightarrow> 's
     \<Rightarrow> (exn + unit) \<times> 's \<times> ('tok, 'ot, 'tag) gateway_call list" where
  "CreateCustomTagWithRelationshipsCommand_run u dao c s =
     (case CreateCustomTagWithRelationshipsCommand_validate u c of
        Inl e \<Rightarrow> (Inl e, s, [])
      | Inr _ \<Rightarrow>
          (case CreateCustomTagWithRelationshipsCommand_try dao c s of
             (r, s', calls) \<Rightarrow> (except_DAOCreateFailedError r, s', calls)))"

subsection \<open>A persistence layer and a resolver to run the commands on\<close>

text \<open>
  Modelled from the spec: the enumeration \<^verbatim>\<open>ObjectTypes\<close> and the resolver
  \<^verbatim>\<open>to_object_type\<close> of \<^verbatim>\<open>superset.tags.commands.utils\<close>, which the module imports.
  The spec names the members chart, dashboard, query and saved-query and says that the
  resolver returns \<^verbatim>\<open>None\<close> for a token that matches no member. Tokens are strings
  here, so an f-string prints a token as it is.
\<close>

datatype ObjectTypes = query | chart | dashboard | saved_query

definition string_utils :: "(string, ObjectTypes) utils" where
  "string_utils =
     \<lparr>to_object_type = (\<lambda>t.
        if t = ''query'' then Some query
        else if t = ''chart'' then Some chart
        else if t = ''dashboard'' then Some dashboard
        else if t = ''saved_query'' then Some saved_query
        else None),
      format_token = (\<lambda>t. t)\<rparr>"

text \<open>
  Modelled from the spec: the tag store behind \<^verbatim>\<open>TagDAO\<close> and \<^verbatim>\<open>db.session\<close>
  (\<^verbatim>\<open>superset.daos.tag\<close>, which the module imports). A Tag has a name, a kind and an
  optional description; \<^verbatim>\<open>get_by_name\<close> is the spec's single lookup-or-create by name
  and kind, \<^verbatim>\<open>create_tag_relationship\<close> associates the tag with every reference,
  \<^verbatim>\<open>create_custom_tagged_objects\<close> creates or reuses each named custom tag and
  associates it with the object without duplicating an association, and \<^verbatim>\<open>commit\<close>
  makes the pending rows durable. A tag object is the index of its row.
\<close>

record Tag =
  tag_name :: string
  tag_type :: TagTypes
  tag_description :: "string option"

record 'ot store =
  tag_rows :: "Tag list"
  tagged_objects :: "(nat \<times> 'ot \<times> int) list"
  committed :: "(Tag list \<times> (nat \<times> 'ot \<times> int) list) option"

fun lookup_tag :: "string \<Rightarrow> TagTypes \<Rightarrow> Tag list \<Rightarrow> nat option" where
  "lookup_tag n k [] = None"
| "lookup_tag n k (t # ts) =
     (if tag_name t = n \<and> tag_type t = k then Some 0
      else map_option Suc (lookup_tag n k ts))"

definition store_get_by_name :: "string \<Rightarrow> TagTypes \<Rightarrow> 'ot store \<Rightarrow> (exn + nat) \<times> 'ot store" where
  "store_get_by_name n k s =
     (case lookup_tag n k (tag_rows s) of
        Some i \<Rightarrow> (Inr i, s)
      | None \<Rightarrow>
          (Inr (length (tag_rows s)),
           s\<lparr>tag_rows := tag_rows s @
               [\<lparr>tag_name = n, tag_type = k, tag_description = None\<rparr>]\<rparr>))"

definition store_set_description :: "nat \<Rightarrow> string \<Rightarrow> 'ot store \<Rightarrow> 'ot store" where
  "store_set_description i d s =
     (if i < length (tag_rows s)
      then s\<lparr>tag_rows := (tag_rows s)[i := (tag_rows s ! i)\<lparr>tag_description := Some d\<rparr>]\<rparr>
      else s)"

definition store_commit :: "'ot store \<Rightarrow> (exn + unit) \<times> 'ot store" where
  "store_commit s = (Inr (), s\<lparr>committed := Some (tag_rows s, tagged_objects s)\<rparr>)"

fun resolved_references ::
  "('tok, 'ot) utils \<Rightarrow> nat \<Rightarrow> ('tok \<times> int) list \<Rightarrow> (nat \<times> 'ot \<times> int) list" where
  "resolved_references u tag [] = []"
| "resolved_references u tag ((obj_type, obj_id) # rest) =
     (case to_object_type u obj_type of
        None \<Rightarrow> resolved_references u tag rest
      | Some object_type \<Rightarrow> (tag, object_type, obj_id) # resolved_references u tag rest)"

definition store_create_tag_relationship ::
  "('tok, 'ot) utils \<Rightarrow> ('tok \<times> int) list \<Rightarrow> nat \<Rightarrow> bool \<Rightarrow> 'ot store
     \<Rightarrow> (exn + unit) \<times> 'ot store" where
  "store_create_tag_relationship u objects tag bulk s =
     (Inr (), s\<lparr>tagged_objects := tagged_objects s @ resolved_references u tag objects\<rparr>)"

fun store_create_custom_tagged_objects ::
  "'ot \<Rightarrow> int \<Rightarrow> string list \<Rightarrow> 'ot store \<Rightarrow> (exn + unit) \<times> 'ot store" where
  "store_create_custom_tagged_objects object_type object_id [] s = (Inr (), s)"
| "store_create_custom_tagged_objects object_type object_id (n # ns) s =
     (case store_get_by_name n custom s of
        (Inl e, s1) \<Rightarrow> (Inl e, s1)
      | (Inr i, s1) \<Rightarrow>
          store_create_custom_tagged_objects object_type object_id ns
            (if (i, object_type, object_id) \<in> set (tagged_objects s1) then s1
             else s1\<lparr>tagged_objects := tagged_objects s1 @ [(i, object_type, object_id)]\<rparr>))"

definition store_TagDAO :: "('tok, 'ot) utils \<Rightarrow> ('ot store, 'tok, 'ot, nat) TagDAO" where
  "store_TagDAO u =
     \<lparr>create_custom_tagged_objects = store_create_custom_tagged_objects,
      get_by_name = store_get_by_name,
      create_tag_relationship = store_create_tag_relationship u,
      set_description = store_set_description,
      commit = store_commit\<rparr>"

definition empty_store :: "'ot store" where
  "empty_store = \<lparr>tag_rows = [], tagged_objects = [], committed = None\<rparr>"

text \<open>
  Modelled from the spec: the same store behind a persistence layer that can fail. The
  spec's interface lets each of the four operations raise the persistence layer's
  creation error; here each operation named in \<open>faults\<close> raises
  \<^verbatim>\<open>DAOCreateFailedError\<close> and leaves the store as it found it.
\<close>

datatype operation = Op_create_custom_tagged_objects | Op_get_by_name
  | Op_create_tag_relationship | Op_commit

definition faulty_TagDAO ::
  "operation list \<Rightarrow> ('tok, 'ot) utils \<Rightarrow> ('ot store, 'tok, 'ot, nat) TagDAO" where
  "faulty_TagDAO faults u =
     \<lparr>create_custom_tagged_objects = (\<lambda>object_type object_id names s.
        if Op_create_custom_tagged_objects \<in> set faults
        then (Inl (DAOCreateFailedError ''create_custom_tagged_objects''), s)
        else store_create_custom_tagged_objects object_type object_id names s),
      get_by_name = (\<lambda>n k s.
        if Op_get_by_name \<in> set faults then (Inl (DAOCreateFailedError ''get_by_name''), s)
        else store_get_by_name n k s),
      create_tag_relationship = (\<lambda>objects tag bulk s.
        if Op_create_tag_relationship \<in> set faults
        then (Inl (DAOCreateFailedError ''create_tag_relationship''), s)
        else store_create_tag_relationship u objects tag bulk s),
      set_description = store_set_description,
      commit = (\<lambda>s.
        if Op_commit \<in> set faults then (Inl (DAOCreateFailedError ''commit''), s)
        else store_commit s)\<rparr>"

text \<open>The number of Tag rows with a given name and kind.\<close>

definition count_tags :: "string \<Rightarrow> TagTypes \<Rightarrow> Tag list \<Rightarrow> nat" where
  "count_tags n k rows = length (filter (\<lambda>t. tag_name t = n \<and> tag_type t = k) rows)"

text \<open>The message of an exception, when it was constructed with one.\<close>

fun exn_message :: "exn \<Rightarrow> string option" where
  "exn_message (DAOCreateFailedError x) = Some x"
| "exn_message (OtherError x) = Some x"
| "exn_message (TagCreateFailedError m cause) = m"
| "exn_message (TagInvalidError m exceptions) = m"

text \<open>
  The description of the Tag row that a lookup by name and kind finds; \<open>None\<close> when
  there is no such row or the row has no description.
\<close>

definition tag_description_of :: "string \<Rightarrow> TagTypes \<Rightarrow> Tag list \<Rightarrow> string option" where
  "tag_description_of n k rows =
     (case lookup_tag n k rows of None \<Rightarrow> None | Some i \<Rightarrow> tag_description (rows ! i))"

section \<open>Properties of the commands\<close>


subsection \<open>Validation comes before persistence\<close>

text \<open>
  C3. When \<^verbatim>\<open>validate\<close> of either command raises, \<^verbatim>\<open>run\<close> raises the same
  \<^verbatim>\<open>TagInvalidError\<close>, which carries the whole list of collected exceptions (a
  non-empty list), the state of the persistence layer is the one \<^verbatim>\<open>run\<close> started
  from, and the trace of persistence operations is empty.
\<close>

theorem validation_failure_stops_run:
  "(CreateCustomTagCommand_validate u c1 \<noteq> Inr () \<longrightarrow>
      CreateCustomTagCommand_exceptions u c1 \<noteq> [] \<and>
      CreateCustomTagCommand_run u dao c1 s =
        (Inl (TagInvalidError None (CreateCustomTagCommand_exceptions u c1)), s, [])) \<and>
   (CreateCustomTagWithRelationshipsCommand_validate u c2 \<noteq> Inr () \<longrightarrow>
      CreateCustomTagWithRelationshipsCommand_exceptions u c2 \<noteq> [] \<and>
      CreateCustomTagWithRelationshipsCommand_run u dao c2 s =
        (Inl (TagInvalidError None (CreateCustomTagWithRelationshipsCommand_exceptions u c2)), s, []))"
  by (simp add: CreateCustomTagCommand_validate_def CreateCustomTagCommand_run_def
      CreateCustomTagWithRelationshipsCommand_validate_def
      CreateCustomTagWithRelationshipsCommand_run_def Let_def)

theorem validation_failure_stops_run_witness:
  "CreateCustomTagCommand_run string_utils (store_TagDAO string_utils)
     \<lparr>cmd_object_type = ''bogus'', cmd_object_id = 0, cmd_tags = [''a'']\<rparr> empty_store =
     (Inl (TagInvalidError None
        [TagCreateFailedError None None,
         TagCreateFailedError (Some ''invalid object type bogus'') None]), empty_store, []) \<and>
   CreateCustomTagWithRelationshipsCommand_run string_utils (store_TagDAO string_utils)
     \<lparr>rel_tag = ''q1'', rel_objects_to_tag = Some [(''dashboard'', 0)],
      rel_description = None, rel_bulk_create = False\<rparr> empty_store =
     (Inl (TagInvalidError None [TagInvalidError None []]), empty_store, [])"
  using validation_failure_stops_run [of string_utils
      "\<lparr>cmd_object_type = ''bogus'', cmd_object_id = 0, cmd_tags = [''a'']\<rparr>"
      "store_TagDAO string_utils" empty_store
      "\<lparr>rel_tag = ''q1'', rel_objects_to_tag = Some [(''dashboard'', 0)],
        rel_description = None, rel_bulk_create = False\<rparr>"]
  by (simp add: CreateCustomTagCommand_validate_def CreateCustomTagCommand_exceptions_def
      CreateCustomTagWithRelationshipsCommand_validate_def
      CreateCustomTagWithRelationshipsCommand_exceptions_def string_utils_def Let_def)

subsection \<open>The order of the persistence operations in \<^verbatim>\<open>CreateCustomTagWithRelationshipsCommand.run\<close>\<close>

lemmas run_defs =
  CreateCustomTagWithRelationshipsCommand_run_def
  CreateCustomTagWithRelationshipsCommand_try_def
  step_relationship_def step_description_def

text \<open>
  C9. When validation passes, the first persistence operation of \<^verbatim>\<open>run\<close> is
  \<^verbatim>\<open>get_by_name\<close> with the stripped tag name and the kind \<^verbatim>\<open>custom\<close>; no other
  \<^verbatim>\<open>get_by_name\<close> follows it, and the relationship creation, the description
  assignment and the commit can only come after it.
\<close>

theorem single_get_by_name_first:
  assumes "CreateCustomTagWithRelationshipsCommand_validate u c = Inr ()"
  shows "\<exists>rest. snd (snd (CreateCustomTagWithRelationshipsCommand_run u dao c s)) =
           Call_get_by_name (strip (rel_tag c)) custom # rest \<and>
           (\<forall>n k. Call_get_by_name n k \<notin> set rest)"
  using assms
  by (auto simp: run_defs split: prod.splits sum.splits option.splits)

theorem single_get_by_name_first_witness:
  "snd (snd (CreateCustomTagWithRelationshipsCommand_run string_utils (store_TagDAO string_utils)
     \<lparr>rel_tag = '' q1 '', rel_objects_to_tag = Some [(''dashboard'', 7)],
      rel_description = Some ''desc'', rel_bulk_create = True\<rparr> empty_store)) =
   [Call_get_by_name ''q1'' custom,
    Call_create_tag_relationship [(''dashboard'', 7)] 0 True,
    Set_description 0 ''desc'', Call_commit]"
  using single_get_by_name_first [of string_utils
      "\<lparr>rel_tag = '' q1 '', rel_objects_to_tag = Some [(''dashboard'', 7)],
        rel_description = Some ''desc'', rel_bulk_create = True\<rparr>"
      "store_TagDAO string_utils" empty_store]
  by (simp add: run_defs CreateCustomTagWithRelationshipsCommand_validate_def
      CreateCustomTagWithRelationshipsCommand_exceptions_def string_utils_def Let_def
      store_TagDAO_def store_get_by_name_def store_create_tag_relationship_def
      store_set_description_def store_commit_def empty_store_def strip_def isspace_def)

text \<open>
  C2. When validation passes, \<^verbatim>\<open>get_by_name\<close> returns a tag and
  \<^verbatim>\<open>create_tag_relationship\<close> raises, \<^verbatim>\<open>run\<close> raises (the handler's translation of)
  that exception, the trace ends with the failed call, so it holds no description
  assignment and no commit, and the final state is the one the failed call left,
  whatever description the request supplied.
\<close>

theorem relationship_failure_skips_description:
  assumes "CreateCustomTagWithRelationshipsCommand_validate u c = Inr ()"
    and "get_by_name dao (strip (rel_tag c)) custom s = (Inr tag, s1)"
    and "rel_objects_to_tag c = Some objects" and "objects \<noteq> []"
    and "create_tag_relationship dao objects tag (rel_bulk_create c) s1 = (Inl e, s2)"
  shows "CreateCustomTagWithRelationshipsCommand_run u dao c s =
           (except_DAOCreateFailedError (Inl e), s2,
            [Call_get_by_name (strip (rel_tag c)) custom,
             Call_create_tag_relationship objects tag (rel_bulk_create c)])"
  using assms by (simp add: run_defs)

theorem relationship_failure_skips_description_witness:
  "CreateCustomTagWithRelationshipsCommand_run string_utils
     (faulty_TagDAO [Op_create_tag_relationship] string_utils)
     \<lparr>rel_tag = ''q1'', rel_objects_to_tag = Some [(''chart'', 42)],
      rel_description = Some ''desc'', rel_bulk_create = False\<rparr> empty_store =
   (Inl (TagCreateFailedError None (Some (DAOCreateFailedError ''create_tag_relationship''))),
    \<lparr>tag_rows = [\<lparr>tag_name = ''q1'', tag_type = custom, tag_description = None\<rparr>],
     tagged_objects = [], committed = None\<rparr>,
    [Call_get_by_name ''q1'' custom, Call_create_tag_relationship [(''chart'', 42)] 0 False])"
  using relationship_failure_skips_description [of string_utils
      "\<lparr>rel_tag = ''q1'', rel_objects_to_tag = Some [(''chart'', 42)],
        rel_description = Some ''desc'', rel_bulk_create = False\<rparr>"
      "faulty_TagDAO [Op_create_tag_relationship] string_utils" empty_store 0
      "\<lparr>tag_rows = [\<lparr>tag_name = ''q1'', tag_type = custom, tag_description = None\<rparr>],
        tagged_objects = [], committed = None\<rparr>"
      "[(''chart'', 42)]" "DAOCreateFailedError ''create_tag_relationship''"
      "\<lparr>tag_rows = [\<lparr>tag_name = ''q1'', tag_type = custom, tag_description = None\<rparr>],
        tagged_objects = [], committed = None\<rparr>"]
  by (simp add: CreateCustomTagWithRelationshipsCommand_validate_def
      CreateCustomTagWithRelationshipsCommand_exceptions_def string_utils_def Let_def
      faulty_TagDAO_def store_get_by_name_def empty_store_def strip_def isspace_def)

text \<open>
  C10. When the description is absent or the empty string, the description step of
  \<^verbatim>\<open>run\<close> does nothing: it returns normally, leaves the state as it is and issues no
  operation; and the trace of the whole \<^verbatim>\<open>run\<close> holds no description assignment and
  no commit.
\<close>

theorem falsy_description_no_update:
  assumes "rel_description c = None \<or> rel_description c = Some []"
  shows "step_description dao c tag s2 = (Inr (), s2, []) \<and>
         (\<forall>t d. Set_description t d \<notin>
            set (snd (snd (CreateCustomTagWithRelationshipsCommand_run u dao c s)))) \<and>
         Call_commit \<notin> set (snd (snd (CreateCustomTagWithRelationshipsCommand_run u dao c s)))"
  using assms
  by (auto simp: run_defs split: prod.splits sum.splits option.splits)

theorem falsy_description_no_update_witness:
  "CreateCustomTagWithRelationshipsCommand_run string_utils (store_TagDAO string_utils)
     \<lparr>rel_tag = ''q1'', rel_objects_to_tag = Some [(''chart'', 42)],
      rel_description = Some [], rel_bulk_create = False\<rparr>
     \<lparr>tag_rows = [\<lparr>tag_name = ''q1'', tag_type = custom, tag_description = Some ''old''\<rparr>],
      tagged_objects = [], committed = None\<rparr> =
   (Inr (),
    \<lparr>tag_rows = [\<lparr>tag_name = ''q1'', tag_type = custom, tag_description = Some ''old''\<rparr>],
     tagged_objects = [(0, chart, 42)], committed = None\<rparr>,
    [Call_get_by_name ''q1'' custom, Call_create_tag_relationship [(''chart'', 42)] 0 False])"
  using falsy_description_no_update [of
      "\<lparr>rel_tag = ''q1'', rel_objects_to_tag = Some [(''chart'', 42)],
        rel_description = Some [], rel_bulk_create = False\<rparr>"
      "store_TagDAO string_utils" 0
      "\<lparr>tag_rows = [\<lparr>tag_name = ''q1'', tag_type = custom, tag_description = Some ''old''\<rparr>],
        tagged_objects = [], committed = None\<rparr>" string_utils
      "\<lparr>tag_rows = [\<lparr>tag_name = ''q1'', tag_type = custom, tag_description = Some ''old''\<rparr>],
        tagged_objects = [], committed = None\<rparr>"]
  by (simp add: run_defs CreateCustomTagWithRelationshipsCommand_validate_def
      CreateCustomTagWithRelationshipsCommand_exceptions_def string_utils_def Let_def
      store_TagDAO_def store_get_by_name_def store_create_tag_relationship_def
      strip_def isspace_def)

text \<open>
  C6. For a request whose batch of object references is empty (or absent) and whose
  description is a non-empty string, validation collects no exception; and when
  \<^verbatim>\<open>get_by_name\<close> returns a tag and the commit succeeds, \<^verbatim>\<open>run\<close> returns normally
  after exactly three operations: the lookup-or-create of the stripped name, the
  assignment of the description to that tag, and the commit. No relationship is
  created, and the final state is the committed one.
\<close>

theorem description_only_request:
  assumes "rel_objects_to_tag c = None \<or> rel_objects_to_tag c = Some []"
    and "rel_description c = Some d" and "d \<noteq> []"
    and "get_by_name dao (strip (rel_tag c)) custom s = (Inr tag, s1)"
    and "commit dao (set_description dao tag d s1) = (Inr (), s2)"
  shows "CreateCustomTagWithRelationshipsCommand_exceptions u c = [] \<and>
         CreateCustomTagWithRelationshipsCommand_run u dao c s =
           (Inr (), s2,
            [Call_get_by_name (strip (rel_tag c)) custom, Set_description tag d, Call_commit])"
  using assms
  by (auto simp: run_defs CreateCustomTagWithRelationshipsCommand_validate_def
      CreateCustomTagWithRelationshipsCommand_exceptions_def)

theorem description_only_request_witness:
  "CreateCustomTagWithRelationshipsCommand_run string_utils (store_TagDAO string_utils)
     \<lparr>rel_tag = ''q1'', rel_objects_to_tag = Some [],
      rel_description = Some ''desc'', rel_bulk_create = False\<rparr> empty_store =
   (Inr (),
    \<lparr>tag_rows = [\<lparr>tag_name = ''q1'', tag_type = custom, tag_description = Some ''desc''\<rparr>],
     tagged_objects = [],
     committed = Some ([\<lparr>tag_name = ''q1'', tag_type = custom,
                         tag_description = Some ''desc''\<rparr>], [])\<rparr>,
    [Call_get_by_name ''q1'' custom, Set_description 0 ''desc'', Call_commit])"
  using description_only_request [of
      "\<lparr>rel_tag = ''q1'', rel_objects_to_tag = Some [],
        rel_description = Some ''desc'', rel_bulk_create = False\<rparr>"
      "''desc''" "store_TagDAO string_utils" empty_store 0
      "\<lparr>tag_rows = [\<lparr>tag_name = ''q1'', tag_type = custom, tag_description = None\<rparr>],
        tagged_objects = [], committed = None\<rparr>"
      "\<lparr>tag_rows = [\<lparr>tag_name = ''q1'', tag_type = custom, tag_description = Some ''desc''\<rparr>],
        tagged_objects = [],
        committed = Some ([\<lparr>tag_name = ''q1'', tag_type = custom,
                            tag_description = Some ''desc''\<rparr>], [])\<rparr>"
      string_utils]
  by (simp add: store_TagDAO_def store_get_by_name_def store_set_description_def
      store_commit_def empty_store_def strip_def isspace_def)

subsection \<open>The exception handler of \<^verbatim>\<open>run\<close>\<close>

lemma except_never_DAOCreateFailedError:
  "except_DAOCreateFailedError r \<noteq> Inl (DAOCreateFailedError x)"
  by (cases r rule: except_DAOCreateFailedError.cases) simp_all

text \<open>
  C8. \<^verbatim>\<open>run\<close> of either command never raises \<^verbatim>\<open>DAOCreateFailedError\<close>. When validation
  has passed and a persistence operation that \<^verbatim>\<open>run\<close> calls raises
  \<^verbatim>\<open>DAOCreateFailedError\<close> (\<^verbatim>\<open>create_custom_tagged_objects\<close> in the first command;
  \<^verbatim>\<open>get_by_name\<close>, \<^verbatim>\<open>create_tag_relationship\<close> or the commit in the second), \<^verbatim>\<open>run\<close>
  raises \<^verbatim>\<open>TagCreateFailedError()\<close> whose cause is that exception.
\<close>

theorem DAOCreateFailedError_translated:
  "(\<forall>y. fst (CreateCustomTagCommand_run u dao ca s) \<noteq> Inl (DAOCreateFailedError y)) \<and>
   (\<forall>y. fst (CreateCustomTagWithRelationshipsCommand_run u dao cb s) \<noteq>
          Inl (DAOCreateFailedError y)) \<and>
   (CreateCustomTagCommand_validate u ca = Inr () \<longrightarrow>
    to_object_type u (cmd_object_type ca) = Some ot \<longrightarrow>
    fst (create_custom_tagged_objects dao ot (cmd_object_id ca) (cmd_tags ca) s) =
      Inl (DAOCreateFailedError x) \<longrightarrow>
    fst (CreateCustomTagCommand_run u dao ca s) =
      Inl (TagCreateFailedError None (Some (DAOCreateFailedError x)))) \<and>
   (CreateCustomTagWithRelationshipsCommand_validate u cb = Inr () \<longrightarrow>
    (fst (get_by_name dao (strip (rel_tag cb)) custom s) = Inl (DAOCreateFailedError x) \<or>
     (get_by_name dao (strip (rel_tag cb)) custom s = (Inr tag, sa) \<and>
      rel_objects_to_tag cb = Some objects \<and> objects \<noteq> [] \<and>
      fst (create_tag_relationship dao objects tag (rel_bulk_create cb) sa) =
        Inl (DAOCreateFailedError x)) \<or>
     (get_by_name dao (strip (rel_tag cb)) custom s = (Inr tag, sa) \<and>
      step_relationship dao cb tag sa = (Inr (), sb, calls) \<and>
      rel_description cb = Some d \<and> d \<noteq> [] \<and>
      fst (commit dao (set_description dao tag d sb)) = Inl (DAOCreateFailedError x))) \<longrightarrow>
    fst (CreateCustomTagWithRelationshipsCommand_run u dao cb s) =
      Inl (TagCreateFailedError None (Some (DAOCreateFailedError x))))"
proof (intro conjI allI impI)
  fix y
  show "fst (CreateCustomTagCommand_run u dao ca s) \<noteq> Inl (DAOCreateFailedError y)"
    by (auto simp: CreateCustomTagCommand_run_def CreateCustomTagCommand_validate_def
        Let_def except_never_DAOCreateFailedError split: prod.splits)
next
  fix y
  show "fst (CreateCustomTagWithRelationshipsCommand_run u dao cb s) \<noteq>
          Inl (DAOCreateFailedError y)"
    by (auto simp: CreateCustomTagWithRelationshipsCommand_run_def
        CreateCustomTagWithRelationshipsCommand_validate_def
        Let_def except_never_DAOCreateFailedError split: prod.splits)
next
  assume "CreateCustomTagCommand_validate u ca = Inr ()"
    and "to_object_type u (cmd_object_type ca) = Some ot"
    and "fst (create_custom_tagged_objects dao ot (cmd_object_id ca) (cmd_tags ca) s) =
           Inl (DAOCreateFailedError x)"
  then show "fst (CreateCustomTagCommand_run u dao ca s) =
      Inl (TagCreateFailedError None (Some (DAOCreateFailedError x)))"
    by (auto simp: CreateCustomTagCommand_run_def CreateCustomTagCommand_try_def
        split: prod.splits)
next
  assume v: "CreateCustomTagWithRelationshipsCommand_validate u cb = Inr ()"
  assume "fst (get_by_name dao (strip (rel_tag cb)) custom s) = Inl (DAOCreateFailedError x) \<or>
     (get_by_name dao (strip (rel_tag cb)) custom s = (Inr tag, sa) \<and>
      rel_objects_to_tag cb = Some objects \<and> objects \<noteq> [] \<and>
      fst (create_tag_relationship dao objects tag (rel_bulk_create cb) sa) =
        Inl (DAOCreateFailedError x)) \<or>
     (get_by_name dao (strip (rel_tag cb)) custom s = (Inr tag, sa) \<and>
      step_relationship dao cb tag sa = (Inr (), sb, calls) \<and>
      rel_description cb = Some d \<and> d \<noteq> [] \<and>
      fst (commit dao (set_description dao tag d sb)) = Inl (DAOCreateFailedError x))"
  then consider
    (lookup) "fst (get_by_name dao (strip (rel_tag cb)) custom s) = Inl (DAOCreateFailedError x)"
  | (relationship) "get_by_name dao (strip (rel_tag cb)) custom s = (Inr tag, sa)"
      "rel_objects_to_tag cb = Some objects" "objects \<noteq> []"
      "fst (create_tag_relationship dao objects tag (rel_bulk_create cb) sa) =
        Inl (DAOCreateFailedError x)"
  | (description) "get_by_name dao (strip (rel_tag cb)) custom s = (Inr tag, sa)"
      "step_relationship dao cb tag sa = (Inr (), sb, calls)"
      "rel_description cb = Some d" "d \<noteq> []"
      "fst (commit dao (set_description dao tag d sb)) = Inl (DAOCreateFailedError x)"
    by blast
  then show "fst (CreateCustomTagWithRelationshipsCommand_run u dao cb s) =
      Inl (TagCreateFailedError None (Some (DAOCreateFailedError x)))"
  proof cases
    case lookup
    with v show ?thesis
      by (auto simp: CreateCustomTagWithRelationshipsCommand_run_def
          CreateCustomTagWithRelationshipsCommand_try_def split: prod.splits sum.splits)
  next
    case relationship
    with v show ?thesis
      by (auto simp: CreateCustomTagWithRelationshipsCommand_run_def
          CreateCustomTagWithRelationshipsCommand_try_def step_relationship_def
          split: prod.splits sum.splits)
  next
    case description
    with v show ?thesis
      by (auto simp: CreateCustomTagWithRelationshipsCommand_run_def
          CreateCustomTagWithRelationshipsCommand_try_def step_description_def
          split: prod.splits sum.splits)
  qed
qed

theorem DAOCreateFailedError_translated_witness:
  "fst (CreateCustomTagCommand_run string_utils
          (faulty_TagDAO [Op_create_custom_tagged_objects] string_utils)
          \<lparr>cmd_object_type = ''chart'', cmd_object_id = 42, cmd_tags = [''a'', ''b'']\<rparr>
          empty_store) =
     Inl (TagCreateFailedError None
           (Some (DAOCreateFailedError ''create_custom_tagged_objects''))) \<and>
   fst (CreateCustomTagWithRelationshipsCommand_run string_utils
          (faulty_TagDAO [Op_commit] string_utils)
          \<lparr>rel_tag = ''q1'', rel_objects_to_tag = None,
           rel_description = Some ''desc'', rel_bulk_create = False\<rparr>
          empty_store) =
     Inl (TagCreateFailedError None (Some (DAOCreateFailedError ''commit'')))"
proof -
  let ?u = "string_utils"
  let ?ca = "\<lparr>cmd_object_type = ''chart'', cmd_object_id = 42, cmd_tags = [''a'', ''b'']\<rparr>"
  let ?cb = "\<lparr>rel_tag = ''q1'', rel_objects_to_tag = None,
              rel_description = Some ''desc'', rel_bulk_create = False\<rparr>"
  let ?sa = "\<lparr>tag_rows = [\<lparr>tag_name = ''q1'', tag_type = custom, tag_description = None\<rparr>],
              tagged_objects = [], committed = None\<rparr> :: ObjectTypes store"
  have va: "CreateCustomTagCommand_validate ?u ?ca = Inr ()"
    by (simp add: CreateCustomTagCommand_validate_def CreateCustomTagCommand_exceptions_def
        string_utils_def)
  have ta: "to_object_type ?u (cmd_object_type ?ca) = Some chart"
    by (simp add: string_utils_def)
  have fa: "fst (create_custom_tagged_objects
                   (faulty_TagDAO [Op_create_custom_tagged_objects] ?u) chart
                   (cmd_object_id ?ca) (cmd_tags ?ca) empty_store) =
            Inl (DAOCreateFailedError ''create_custom_tagged_objects'')"
    by (simp add: faulty_TagDAO_def)
  have vb: "CreateCustomTagWithRelationshipsCommand_validate ?u ?cb = Inr ()"
    by (simp add: CreateCustomTagWithRelationshipsCommand_validate_def
        CreateCustomTagWithRelationshipsCommand_exceptions_def)
  have gb: "get_by_name (faulty_TagDAO [Op_commit] ?u) (strip (rel_tag ?cb)) custom empty_store =
            (Inr 0, ?sa)"
    by (simp add: faulty_TagDAO_def store_get_by_name_def empty_store_def strip_def isspace_def)
  have rb: "step_relationship (faulty_TagDAO [Op_commit] ?u) ?cb 0 ?sa = (Inr (), ?sa, [])"
    by (simp add: step_relationship_def)
  have fb: "fst (commit (faulty_TagDAO [Op_commit] ?u)
                   (set_description (faulty_TagDAO [Op_commit] ?u) 0 ''desc'' ?sa)) =
            Inl (DAOCreateFailedError ''commit'')"
    by (simp add: faulty_TagDAO_def)
  show ?thesis
    using DAOCreateFailedError_translated [where u = ?u and ca = ?ca and s = empty_store
        and dao = "faulty_TagDAO [Op_create_custom_tagged_objects] ?u" and ot = chart
        and x = "''create_custom_tagged_objects''"] va ta fa
      DAOCreateFailedError_translated [where u = ?u and cb = ?cb and s = empty_store
        and dao = "faulty_TagDAO [Op_commit] ?u" and tag = 0 and sa = ?sa and sb = ?sa
        and calls = "[]" and d = "''desc''" and x = "''commit''"] vb gb rb fb
    by simp
qed

subsection \<open>What \<^verbatim>\<open>validate\<close> collects\<close>

text \<open>
  C5, as the code has it. With object id 0, \<^verbatim>\<open>CreateCustomTagCommand.validate\<close> raises
  \<^verbatim>\<open>TagInvalidError\<close> whose list starts with the failure of the id check, a
  \<^verbatim>\<open>TagCreateFailedError()\<close> constructed with no message and no cause: it does not name
  the id. The only other failure the list can hold is the one of the type check, whose
  message names the type token.
\<close>

theorem zero_id_failure_without_message:
  assumes "cmd_object_id c = 0"
  shows "\<exists>rest. CreateCustomTagCommand_validate u c =
           Inl (TagInvalidError None (TagCreateFailedError None None # rest)) \<and>
           exn_message (TagCreateFailedError None None) = None \<and>
           (\<forall>e \<in> set rest. exn_message e =
              Some (''invalid object type '' @ format_token u (cmd_object_type c)))"
  using assms
  by (simp add: CreateCustomTagCommand_validate_def CreateCustomTagCommand_exceptions_def
      split: option.splits)

theorem zero_id_failure_without_message_witness:
  "CreateCustomTagCommand_validate string_utils
     \<lparr>cmd_object_type = ''bogus'', cmd_object_id = 0, cmd_tags = []\<rparr> =
   Inl (TagInvalidError None
     [TagCreateFailedError None None,
      TagCreateFailedError (Some ''invalid object type bogus'') None])"
  using zero_id_failure_without_message [of
      "\<lparr>cmd_object_type = ''bogus'', cmd_object_id = 0, cmd_tags = []\<rparr>" string_utils]
  by (simp add: CreateCustomTagCommand_validate_def CreateCustomTagCommand_exceptions_def
      string_utils_def)

text \<open>
  C5, as the claim states it, fails: for the chart with id 0 the list holds one failure,
  and that failure has no message, so nothing in it refers to the id.
\<close>

theorem zero_id_failure_names_no_id:
  "CreateCustomTagCommand_validate string_utils
     \<lparr>cmd_object_type = ''chart'', cmd_object_id = 0, cmd_tags = [''a'']\<rparr> =
     Inl (TagInvalidError None [TagCreateFailedError None None]) \<and>
   map exn_message (CreateCustomTagCommand_exceptions string_utils
     \<lparr>cmd_object_type = ''chart'', cmd_object_id = 0, cmd_tags = [''a'']\<rparr>) = [None]"
  by (simp add: CreateCustomTagCommand_validate_def CreateCustomTagCommand_exceptions_def
      string_utils_def)

text \<open>
  C4. For a token that does not resolve, \<^verbatim>\<open>CreateCustomTagCommand.validate\<close> reports
  \<^verbatim>\<open>invalid object type bogus\<close>, while
  \<^verbatim>\<open>CreateCustomTagWithRelationshipsCommand.validate\<close> formats the result of the
  resolver instead of the token and reports \<^verbatim>\<open>invalid object type None\<close>.
\<close>

theorem unresolved_type_messages:
  "CreateCustomTagCommand_validate string_utils
     \<lparr>cmd_object_type = ''bogus'', cmd_object_id = 1, cmd_tags = []\<rparr> =
     Inl (TagInvalidError None
       [TagCreateFailedError (Some ''invalid object type bogus'') None]) \<and>
   CreateCustomTagWithRelationshipsCommand_validate string_utils
     \<lparr>rel_tag = ''q1'', rel_objects_to_tag = Some [(''bogus'', 1)],
      rel_description = None, rel_bulk_create = False\<rparr> =
     Inl (TagInvalidError None [TagInvalidError (Some ''invalid object type None'') []])"
  by (simp add: CreateCustomTagCommand_validate_def CreateCustomTagCommand_exceptions_def
      CreateCustomTagWithRelationshipsCommand_validate_def
      CreateCustomTagWithRelationshipsCommand_exceptions_def string_utils_def)

lemma length_object_type_exceptions:
  "length (object_type_exceptions u objects) =
   length (filter (\<lambda>(obj_type, obj_id). to_object_type u obj_type = None) objects)"
  by (induction objects) (auto split: option.splits)

lemma list_ex_zero_id:
  "list_ex (\<lambda>(obj_type, obj_id). obj_id = (0::int)) objects \<longleftrightarrow>
   filter (\<lambda>(obj_type, obj_id). obj_id = 0) objects \<noteq> []"
  by (induction objects) auto

text \<open>
  C1, as the code has it. For a batch of which K references have id 0, the id check
  contributes \<open>min 1 K\<close> failures: one \<^verbatim>\<open>TagInvalidError()\<close> for the whole batch when
  K is positive, none when K is 0. They are followed by one failure for each reference
  whose type does not resolve, and \<^verbatim>\<open>validate\<close> raises exactly when the list is not
  empty.
\<close>

theorem one_id_failure_per_batch:
  assumes "rel_objects_to_tag c = Some objects"
  shows "CreateCustomTagWithRelationshipsCommand_exceptions u c =
           replicate (min 1 (length (filter (\<lambda>(obj_type, obj_id). obj_id = 0) objects)))
             (TagInvalidError None []) @ object_type_exceptions u objects \<and>
         length (object_type_exceptions u objects) =
           length (filter (\<lambda>(obj_type, obj_id). to_object_type u obj_type = None) objects) \<and>
         CreateCustomTagWithRelationshipsCommand_validate u c =
           (if CreateCustomTagWithRelationshipsCommand_exceptions u c = [] then Inr ()
            else Inl (TagInvalidError None
                   (CreateCustomTagWithRelationshipsCommand_exceptions u c)))"
proof (intro conjI)
  show "CreateCustomTagWithRelationshipsCommand_exceptions u c =
           replicate (min 1 (length (filter (\<lambda>(obj_type, obj_id). obj_id = 0) objects)))
             (TagInvalidError None []) @ object_type_exceptions u objects"
  proof (cases "filter (\<lambda>(obj_type, obj_id). obj_id = 0) objects")
    case Nil
    then show ?thesis
      using assms
      by (simp add: CreateCustomTagWithRelationshipsCommand_exceptions_def list_ex_zero_id)
  next
    case (Cons a rest)
    then have "objects \<noteq> []" by auto
    with Cons show ?thesis
      using assms
      by (simp add: CreateCustomTagWithRelationshipsCommand_exceptions_def list_ex_zero_id)
  qed
next
  show "length (object_type_exceptions u objects) =
           length (filter (\<lambda>(obj_type, obj_id). to_object_type u obj_type = None) objects)"
    by (rule length_object_type_exceptions)
next
  show "CreateCustomTagWithRelationshipsCommand_validate u c =
           (if CreateCustomTagWithRelationshipsCommand_exceptions u c = [] then Inr ()
            else Inl (TagInvalidError None
                   (CreateCustomTagWithRelationshipsCommand_exceptions u c)))"
    by (simp add: CreateCustomTagWithRelationshipsCommand_validate_def)
qed

theorem one_id_failure_per_batch_witness:
  "CreateCustomTagWithRelationshipsCommand_exceptions string_utils
     \<lparr>rel_tag = ''q1'',
      rel_objects_to_tag = Some [(''chart'', 0), (''bogus'', 0), (''query'', 5)],
      rel_description = None, rel_bulk_create = False\<rparr> =
   TagInvalidError None [] # object_type_exceptions string_utils
     [(''chart'', 0), (''bogus'', 0), (''query'', 5)] \<and>
   length (object_type_exceptions string_utils
     [(''chart'', 0), (''bogus'', 0), (''query'', 5)]) = 1"
  using one_id_failure_per_batch [of
      "\<lparr>rel_tag = ''q1'',
        rel_objects_to_tag = Some [(''chart'', 0), (''bogus'', 0), (''query'', 5)],
        rel_description = None, rel_bulk_create = False\<rparr>"
      "[(''chart'', 0), (''bogus'', 0), (''query'', 5)]" string_utils]
  by (simp add: string_utils_def)

text \<open>
  C1, as the claim states it, fails: a batch of three references of which two have
  id 0 (and all three types resolve) gives one failure, not two.
\<close>

theorem two_zero_ids_one_failure:
  "CreateCustomTagWithRelationshipsCommand_validate string_utils
     \<lparr>rel_tag = ''q1'',
      rel_objects_to_tag = Some [(''chart'', 0), (''dashboard'', 0), (''query'', 5)],
      rel_description = None, rel_bulk_create = False\<rparr> =
   Inl (TagInvalidError None [TagInvalidError None []])"
  by (simp add: CreateCustomTagWithRelationshipsCommand_validate_def
      CreateCustomTagWithRelationshipsCommand_exceptions_def string_utils_def)

subsection \<open>Running the description-only request twice on the tag store\<close>

lemma lookup_tag_Some:
  "lookup_tag n k rows = Some i \<Longrightarrow>
     i < length rows \<and> tag_name (rows ! i) = n \<and> tag_type (rows ! i) = k"
proof (induction rows arbitrary: i)
  case Nil
  then show ?case by simp
next
  case (Cons t ts)
  then show ?case by (auto split: if_splits)
qed

lemma lookup_tag_None: "lookup_tag n k rows = None \<longleftrightarrow> count_tags n k rows = 0"
  by (induction rows) (auto simp: count_tags_def)

lemma lookup_tag_append_new:
  "lookup_tag n k rows = None \<Longrightarrow>
     lookup_tag n k (rows @ [\<lparr>tag_name = n, tag_type = k, tag_description = d\<rparr>]) =
       Some (length rows)"
  by (induction rows) (auto split: if_splits)

lemma count_tags_append_new:
  "count_tags n k (rows @ [\<lparr>tag_name = n, tag_type = k, tag_description = d\<rparr>]) =
     Suc (count_tags n k rows)"
  by (simp add: count_tags_def)

lemma lookup_tag_describe:
  "lookup_tag n k (rows[i := (rows ! i)\<lparr>tag_description := d\<rparr>]) = lookup_tag n k rows"
proof (induction rows arbitrary: i)
  case Nil
  then show ?case by simp
next
  case (Cons t ts)
  then show ?case by (cases i) auto
qed

lemma count_tags_describe:
  "count_tags n k (rows[i := (rows ! i)\<lparr>tag_description := d\<rparr>]) = count_tags n k rows"
proof (induction rows arbitrary: i)
  case Nil
  then show ?case by (simp add: count_tags_def)
next
  case (Cons t ts)
  then show ?case by (cases i) (auto simp: count_tags_def)
qed

text \<open>The lookup-or-create leaves one row of the name when there was at most one.\<close>

lemma store_get_by_name_effect:
  assumes "count_tags n k (tag_rows s) \<le> 1"
  shows "\<exists>i s1. store_get_by_name n k s = (Inr i, s1) \<and>
           lookup_tag n k (tag_rows s1) = Some i \<and>
           count_tags n k (tag_rows s1) = 1 \<and>
           tag_description_of n k (tag_rows s1) = tag_description_of n k (tag_rows s)"
proof (cases "lookup_tag n k (tag_rows s)")
  case None
  then show ?thesis
    using lookup_tag_append_new [OF None, of None]
    by (simp add: store_get_by_name_def count_tags_append_new tag_description_of_def
        lookup_tag_None [symmetric])
next
  case (Some i)
  then have "count_tags n k (tag_rows s) \<noteq> 0"
    using lookup_tag_None [of n k "tag_rows s"] by simp
  with assms have "count_tags n k (tag_rows s) = 1" by simp
  with Some show ?thesis
    by (simp add: store_get_by_name_def)
qed

lemma store_set_description_effect:
  assumes "lookup_tag n k (tag_rows s) = Some i"
  shows "lookup_tag n k (tag_rows (store_set_description i d s)) = Some i \<and>
         count_tags n k (tag_rows (store_set_description i d s)) = count_tags n k (tag_rows s) \<and>
         tag_description_of n k (tag_rows (store_set_description i d s)) = Some d"
  using assms lookup_tag_Some [OF assms]
  by (simp add: store_set_description_def lookup_tag_describe count_tags_describe
      tag_description_of_def)

lemma store_run_without_objects:
  assumes "\<not> truthy (rel_objects_to_tag c)"
    and "count_tags (strip (rel_tag c)) custom (tag_rows s) \<le> 1"
  shows "\<exists>s' calls.
           CreateCustomTagWithRelationshipsCommand_run u (store_TagDAO u) c s =
             (Inr (), s', calls) \<and>
           count_tags (strip (rel_tag c)) custom (tag_rows s') = 1 \<and>
           tag_description_of (strip (rel_tag c)) custom (tag_rows s') =
             (if truthy (rel_description c) then rel_description c
              else tag_description_of (strip (rel_tag c)) custom (tag_rows s))"
proof -
  let ?n = "strip (rel_tag c)"
  from store_get_by_name_effect [OF assms(2)] obtain i s1 where
    g: "store_get_by_name ?n custom s = (Inr i, s1)" and
    l: "lookup_tag ?n custom (tag_rows s1) = Some i" and
    c1: "count_tags ?n custom (tag_rows s1) = 1" and
    d1: "tag_description_of ?n custom (tag_rows s1) = tag_description_of ?n custom (tag_rows s)"
    by blast
  have v: "CreateCustomTagWithRelationshipsCommand_validate u c = Inr ()"
    using assms(1)
    by (simp add: CreateCustomTagWithRelationshipsCommand_validate_def
        CreateCustomTagWithRelationshipsCommand_exceptions_def)
  show ?thesis
  proof (cases "truthy (rel_description c)")
    case False
    with v g assms(1) c1 d1 show ?thesis
      by (simp add: run_defs store_TagDAO_def)
  next
    case True
    then obtain d where d: "rel_description c = Some d" "d \<noteq> []"
      by (cases "rel_description c") auto
    from store_set_description_effect [OF l, of d] c1 True d v g assms(1) show ?thesis
      by (simp add: run_defs store_TagDAO_def store_commit_def)
  qed
qed

text \<open>
  C7, on the tag store modelled from the spec. Two runs with the same tag name and no
  object references, on a store with at most one custom Tag of that (stripped) name,
  both return normally and leave exactly one such Tag. Its description is the last one
  applied: the second request's description when that is a non-empty string, otherwise
  the first request's when that is non-empty, otherwise the description the Tag had.
\<close>

theorem second_description_wins:
  assumes "rel_tag cb = rel_tag ca"
    and "\<not> truthy (rel_objects_to_tag ca)" and "\<not> truthy (rel_objects_to_tag cb)"
    and "count_tags (strip (rel_tag ca)) custom (tag_rows s) \<le> 1"
    and "CreateCustomTagWithRelationshipsCommand_run u (store_TagDAO u) ca s = (ra, sa, callsa)"
    and "CreateCustomTagWithRelationshipsCommand_run u (store_TagDAO u) cb sa = (rb, sb, callsb)"
  shows "ra = Inr () \<and> rb = Inr () \<and>
         count_tags (strip (rel_tag ca)) custom (tag_rows sb) = 1 \<and>
         tag_description_of (strip (rel_tag ca)) custom (tag_rows sb) =
           (if truthy (rel_description cb) then rel_description cb
            else if truthy (rel_description ca) then rel_description ca
            else tag_description_of (strip (rel_tag ca)) custom (tag_rows s))"
proof -
  from store_run_without_objects [OF assms(2) assms(4), of u] assms(5) have
    a: "ra = Inr ()" "count_tags (strip (rel_tag ca)) custom (tag_rows sa) = 1"
      "tag_description_of (strip (rel_tag ca)) custom (tag_rows sa) =
         (if truthy (rel_description ca) then rel_description ca
          else tag_description_of (strip (rel_tag ca)) custom (tag_rows s))"
    by auto
  from a(2) assms(1) have "count_tags (strip (rel_tag cb)) custom (tag_rows sa) \<le> 1"
    by simp
  from store_run_without_objects [OF assms(3) this, of u] assms(6) assms(1) have
    b: "rb = Inr ()" "count_tags (strip (rel_tag ca)) custom (tag_rows sb) = 1"
      "tag_description_of (strip (rel_tag ca)) custom (tag_rows sb) =
         (if truthy (rel_description cb) then rel_description cb
          else tag_description_of (strip (rel_tag ca)) custom (tag_rows sa))"
    by auto
  from a b show ?thesis by simp
qed

theorem second_description_wins_witness:
  "CreateCustomTagWithRelationshipsCommand_run string_utils (store_TagDAO string_utils)
     \<lparr>rel_tag = ''q1'', rel_objects_to_tag = Some [],
      rel_description = Some ''second'', rel_bulk_create = False\<rparr>
     (fst (snd (CreateCustomTagWithRelationshipsCommand_run string_utils
        (store_TagDAO string_utils)
        \<lparr>rel_tag = ''q1'', rel_objects_to_tag = Some [],
         rel_description = Some ''first'', rel_bulk_create = False\<rparr> empty_store))) =
   (Inr (),
    \<lparr>tag_rows = [\<lparr>tag_name = ''q1'', tag_type = custom, tag_description = Some ''second''\<rparr>],
     tagged_objects = [],
     committed = Some ([\<lparr>tag_name = ''q1'', tag_type = custom,
                         tag_description = Some ''second''\<rparr>], [])\<rparr>,
    [Call_get_by_name ''q1'' custom, Set_description 0 ''second'', Call_commit]) \<and>
   count_tags ''q1'' custom
     [\<lparr>tag_name = ''q1'', tag_type = custom, tag_description = Some ''second''\<rparr>] = 1 \<and>
   tag_description_of ''q1'' custom
     [\<lparr>tag_name = ''q1'', tag_type = custom, tag_description = Some ''second''\<rparr>] =
     Some ''second''"
proof -
  let ?u = "string_utils"
  let ?ca = "\<lparr>rel_tag = ''q1'', rel_objects_to_tag = Some ([] :: (string \<times> int) list),
              rel_description = Some ''first'', rel_bulk_create = False\<rparr>"
  let ?cb = "\<lparr>rel_tag = ''q1'', rel_objects_to_tag = Some ([] :: (string \<times> int) list),
              rel_description = Some ''second'', rel_bulk_create = False\<rparr>"
  let ?sa = "\<lparr>tag_rows = [\<lparr>tag_name = ''q1'', tag_type = custom,
                             tag_description = Some ''first''\<rparr>],
              tagged_objects = [],
              committed = Some ([\<lparr>tag_name = ''q1'', tag_type = custom,
                                  tag_description = Some ''first''\<rparr>], [])\<rparr> :: ObjectTypes store"
  let ?sb = "\<lparr>tag_rows = [\<lparr>tag_name = ''q1'', tag_type = custom,
                             tag_description = Some ''second''\<rparr>],
              tagged_objects = [],
              committed = Some ([\<lparr>tag_name = ''q1'', tag_type = custom,
                                  tag_description = Some ''second''\<rparr>], [])\<rparr> :: ObjectTypes store"
  have st: "strip ''q1'' = ''q1''"
    by (simp add: strip_def isspace_def)
  have ra: "CreateCustomTagWithRelationshipsCommand_run ?u (store_TagDAO ?u) ?ca empty_store =
              (Inr (), ?sa,
               [Call_get_by_name ''q1'' custom, Set_description 0 ''first'', Call_commit])"
    by (simp add: run_defs CreateCustomTagWithRelationshipsCommand_validate_def
        CreateCustomTagWithRelationshipsCommand_exceptions_def store_TagDAO_def
        store_get_by_name_def store_set_description_def store_commit_def empty_store_def st)
  have rb: "CreateCustomTagWithRelationshipsCommand_run ?u (store_TagDAO ?u) ?cb ?sa =
              (Inr (), ?sb,
               [Call_get_by_name ''q1'' custom, Set_description 0 ''second'', Call_commit])"
    by (simp add: run_defs CreateCustomTagWithRelationshipsCommand_validate_def
        CreateCustomTagWithRelationshipsCommand_exceptions_def store_TagDAO_def
        store_get_by_name_def store_set_description_def store_commit_def st)
  have cnt: "count_tags (strip (rel_tag ?ca)) custom (tag_rows (empty_store :: ObjectTypes store)) \<le> 1"
    by (simp add: count_tags_def empty_store_def)
  from second_description_wins [of ?cb ?ca empty_store ?u "Inr ()" ?sa _ "Inr ()" ?sb _,
      OF _ _ _ cnt ra rb]
  have "count_tags (strip ''q1'') custom (tag_rows ?sb) = 1 \<and>
        tag_description_of (strip ''q1'') custom (tag_rows ?sb) = Some ''second''"
    by simp
  with ra rb st show ?thesis by simp
qed

end
